theory Spec2Isabelle
  imports Main "HOL-Library.Word" "HOL-Library.Sublist"
begin

unbundle bit_operations_syntax

section \<open>JavaScript strings\<close>

text \<open>
  A JavaScript string is a sequence of UTF-16 code units, and \<open>slice\<close>, \<open>includes\<close> and
  string concatenation work on code units. The literals of the source are ASCII except
  for the dash U+2014 in the \<open>chemistry\<close> annotations; \<open>str\<close> turns an ASCII literal into
  its code units.
\<close>

type_synonym jsstring = "16 word list"

definition str :: "string \<Rightarrow> jsstring" where
  "str s = map of_char s"

text \<open>
  \<open>String.prototype.toLowerCase\<close>, as far as a search for an ASCII keyword can observe
  it. The ASCII capitals go to their small letters. Two code points outside ASCII have a
  lower-case form that contains an ASCII letter: U+212A (Kelvin sign) becomes \<open>k\<close> and
  U+0130 becomes \<open>i\<close> followed by U+0307. Every other code unit outside ASCII is left as
  it is here; the runtime maps it to code units outside ASCII again, so the ASCII runs of
  the result, which are all that \<open>classifyError\<close> looks at, are the runtime's.
\<close>

definition toLowerUnit :: "16 word \<Rightarrow> jsstring" where
  "toLowerUnit c =
     (if 0x41 \<le> c \<and> c \<le> 0x5A then [c + 0x20]
      else if c = 0x212A then [0x6B]
      else if c = 0x130 then [0x69, 0x307]
      else [c])"

definition toLowerCase :: "jsstring \<Rightarrow> jsstring" where
  "toLowerCase s = concat (map toLowerUnit s)"

text \<open>\<open>s.includes(k)\<close>: \<open>k\<close> occurs in \<open>s\<close> as a contiguous run of code units.\<close>

fun js_includes :: "jsstring \<Rightarrow> jsstring \<Rightarrow> bool" where
  "js_includes [] k = (k = [])"
| "js_includes (c # s) k = (prefix k (c # s) \<or> js_includes s k)"

text \<open>\<open>s.slice(0, n)\<close> for \<open>n \<ge> 0\<close>: the first \<open>n\<close> code units, all of \<open>s\<close> when it is shorter.\<close>

definition slice0 :: "jsstring \<Rightarrow> nat \<Rightarrow> jsstring" where
  "slice0 s n = take n s"

text \<open>\<open>xs.join(sep)\<close> on an array of strings.\<close>

fun join :: "jsstring \<Rightarrow> jsstring list \<Rightarrow> jsstring" where
  "join sep [] = []"
| "join sep [x] = x"
| "join sep (x # y # ys) = x @ sep @ join sep (y # ys)"

text \<open>The string form of a non-negative integer (an array index plus one): its decimal digits.\<close>

function decimal :: "nat \<Rightarrow> jsstring" where
  "decimal n =
     (if n < 10 then [0x30 + of_nat n]
      else decimal (n div 10) @ [0x30 + of_nat (n mod 10)])"
  by pat_completeness auto
termination
  by (relation "measure id") auto

section \<open>Response values\<close>

text \<open>
  Modelled from the spec: the declaration of \<open>WarRoomClient\<close> (\<open>warroom.ts\<close>) is not among
  the sources; the pipeline holds a response as \<open>unknown\<close>. The spec calls it an opaque
  structured value, commonly an object that may contain a \<open>response\<close> text field. It is
  modelled as a JSON value. An object is the list of its properties in enumeration order.
  A number is carried by the text that the number-to-string conversion gives it: the
  pipeline never computes with a response, it only prints it. The value \<open>undefined\<close> and
  values that \<open>JSON.stringify\<close> does not serialize to a string (functions, symbols,
  cyclic objects) are not JSON values; \<open>rvalue\<close> below adds them.
\<close>

datatype jsval =
    JNull
  | JBool bool
  | JNumber jsstring
  | JString jsstring
  | JArray "jsval list"
  | JObject "(jsstring \<times> jsval) list"

text \<open>
  \<open>String(v)\<close>. An array prints its elements separated by commas, with nothing for
  \<open>null\<close>; an object prints as \<open>[object Object]\<close>.
\<close>

fun String_js :: "jsval \<Rightarrow> jsstring" where
  "String_js JNull = str ''null''"
| "String_js (JBool b) = (if b then str ''true'' else str ''false'')"
| "String_js (JNumber n) = n"
| "String_js (JString s) = s"
| "String_js (JArray xs) =
     join (str '','') (map (\<lambda>x. if x = JNull then [] else String_js x) xs)"
| "String_js (JObject kvs) = str ''[object Object]''"

text \<open>
  \<open>JSON.stringify\<close> without indentation. A string is quoted: the quote and the reverse
  solidus get a reverse solidus, the control characters below U+0020 their short escape
  or \<open>\u00xx\<close>, a surrogate that is not part of a pair \<open>\udxxx\<close>; every other code unit
  stands for itself.
\<close>

definition hexDigit :: "16 word \<Rightarrow> 16 word" where
  "hexDigit d = (if d < 10 then 0x30 + d else 0x57 + d)"

definition unicodeEscape :: "16 word \<Rightarrow> jsstring" where
  "unicodeEscape c =
     [0x5C, 0x75, hexDigit (drop_bit 12 c), hexDigit (drop_bit 8 c AND 0xF),
      hexDigit (drop_bit 4 c AND 0xF), hexDigit (c AND 0xF)]"

definition isLeadingSurrogate :: "16 word \<Rightarrow> bool" where
  "isLeadingSurrogate c = (0xD800 \<le> c \<and> c \<le> 0xDBFF)"

definition isTrailingSurrogate :: "16 word \<Rightarrow> bool" where
  "isTrailingSurrogate c = (0xDC00 \<le> c \<and> c \<le> 0xDFFF)"

definition quoteUnit :: "16 word \<Rightarrow> jsstring" where
  "quoteUnit c =
     (if c = 0x08 then [0x5C, 0x62]
      else if c = 0x09 then [0x5C, 0x74]
      else if c = 0x0A then [0x5C, 0x6E]
      else if c = 0x0C then [0x5C, 0x66]
      else if c = 0x0D then [0x5C, 0x72]
      else if c = 0x22 then [0x5C, 0x22]
      else if c = 0x5C then [0x5C, 0x5C]
      else if c < 0x20 \<or> isLeadingSurrogate c \<or> isTrailingSurrogate c then unicodeEscape c
      else [c])"

fun quoteUnits :: "jsstring \<Rightarrow> jsstring" where
  "quoteUnits [] = []"
| "quoteUnits [c] = quoteUnit c"
| "quoteUnits (c # d # cs) =
     (if isLeadingSurrogate c \<and> isTrailingSurrogate d then c # d # quoteUnits cs
      else quoteUnit c @ quoteUnits (d # cs))"

definition quoteJSONString :: "jsstring \<Rightarrow> jsstring" where
  "quoteJSONString s = [0x22] @ quoteUnits s @ [0x22]"

fun JSON_stringify :: "jsval \<Rightarrow> jsstring" where
  "JSON_stringify JNull = str ''null''"
| "JSON_stringify (JBool b) = (if b then str ''true'' else str ''false'')"
| "JSON_stringify (JNumber n) = n"
| "JSON_stringify (JString s) = quoteJSONString s"
| "JSON_stringify (JArray xs) = str ''['' @ join (str '','') (map JSON_stringify xs) @ str '']''"
| "JSON_stringify (JObject kvs) =
     str ''{'' @
     join (str '','')
       (map (\<lambda>kv. quoteJSONString (fst kv) @ str '':'' @ JSON_stringify (snd kv)) kvs) @
     str ''}''"

text \<open>
  The text the pipeline takes from a response, written out twice in the source (in
  \<open>runPipeline\<close> and in \<open>buildStagePrompt\<close>) with the same expression: for a non-null
  object with a \<open>response\<close> property the string form of that property, otherwise the JSON
  serialization of the whole value. An array is an object without such a property.
\<close>

definition responseText :: "jsval \<Rightarrow> jsstring" where
  "responseText r =
     (case r of
        JObject kvs \<Rightarrow>
          (case map_of kvs (str ''response'') of
             Some v \<Rightarrow> String_js v
           | None \<Rightarrow> JSON_stringify r)
      | _ \<Rightarrow> JSON_stringify r)"

section \<open>Pipeline stage definitions\<close>

record PipelineStage =
  name :: jsstring
  model :: jsstring
  role :: jsstring
  trigger :: jsstring
  tasks :: "jsstring list"
  output_label :: jsstring
  chemistry :: jsstring

definition PIPELINE_STAGES :: "PipelineStage list" where
  "PIPELINE_STAGES =
    [\<lparr>name = str ''syntax_correction'',
      model = str ''falcon:7b'',
      role = str ''Syntax Specialist'',
      trigger = str ''any_syntax_error'',
      tasks =
        [str ''Detect and fix syntax errors (missing >, ;, unterminated regex)'',
         str ''Ensure JSX/TSX validity''],
      output_label = str ''syntax_patch'',
      chemistry = str ''Steph Curry's shooting '' @ [0x2014] @ str '' precision from deep''\<rparr>,
     \<lparr>name = str ''logic_validation'',
      model = str ''jmorgan/grok:latest'',
      role = str ''Deep Analyst'',
      trigger = str ''any_type_error'',
      tasks =
        [str ''Detect logic conflicts across tsconfig, next.config.js, dockerfiles'',
         str ''Explain error causes in human-friendly terms'',
         str ''Validate and update type definitions''],
      output_label = str ''validated_fix'',
      chemistry = str ''LeBron '' @ [0x2014] @ str '' sees the whole court, validates plays''\<rparr>,
     \<lparr>name = str ''fast_reaction'',
      model = str ''mistral:latest'',
      role = str ''First Responder'',
      trigger = str ''any_build_error'',
      tasks =
        [str ''Scan logs instantly'',
         str ''Apply quick fixes like missing imports and typos'',
         str ''Suggest yarn install if lockfile integrity fails''],
      output_label = str ''quick_fix_patch'',
      chemistry = str ''Curry '' @ [0x2014] @ str '' fast handles, instant patch''\<rparr>,
     \<lparr>name = str ''dependency_management'',
      model = str ''gemma:7b'',
      role = str ''Dependency Coordinator'',
      trigger = str ''after_quick_fix_patch'',
      tasks =
        [str ''Validate dependency versions in package.json and lock files'',
         str ''Suggest yarn/pnpm add/remove for missing or conflicting deps''],
      output_label = str ''dependency_patch'',
      chemistry = str ''Draymond '' @ [0x2014] @ str '' organizes the team, sets the screen''\<rparr>,
     \<lparr>name = str ''strategic_reasoning'',
      model = str ''mixtral:8x22b'',
      role = str ''Architect'',
      trigger = str ''after_validated_fix'',
      tasks =
        [str ''Analyze project-wide implications of fixes'',
         str ''Suggest architectural or config-level improvements'',
         str ''Future-proof corrections for CI/CD and workspace''],
      output_label = str ''strategic_fix_plan'',
      chemistry = str ''Durant '' @ [0x2014] @ str '' builds with long-range vision''\<rparr>,
     \<lparr>name = str ''final_review'',
      model = str ''llama3.1:latest'',
      role = str ''Team Captain'',
      trigger = str ''after_strategic_fix_plan'',
      tasks =
        [str ''Review all fixes for consistency'',
         str ''Ensure build success'',
         str ''Make the final call''],
      output_label = str ''final_patch'',
      chemistry = str ''Jordan '' @ [0x2014] @ str '' closes with dominance''\<rparr>,
     \<lparr>name = str ''fallback'',
      model = str ''qwen:7b'',
      role = str ''Backup'',
      trigger = str ''after_final_review_fail'',
      tasks =
        [str ''Provide alternative fixes if primary pipeline fails'',
         str ''Fresh perspective on the problem''],
      output_label = str ''fallback_fix'',
      chemistry = str ''Iguodala '' @ [0x2014] @ str '' steps up when it matters most''\<rparr>]"

section \<open>Decision flow\<close>

datatype ErrorCategory = Syntax | Type | Build | Dependency | Complex | Unknown

definition classifyError :: "jsstring \<Rightarrow> ErrorCategory" where
  "classifyError error =
     (let lower = toLowerCase error in
      if js_includes lower (str ''unexpected token'') \<or>
         js_includes lower (str ''unterminated'') \<or>
         js_includes lower (str ''missing >'') \<or>
         js_includes lower (str ''jsx'') \<or>
         js_includes lower (str ''parsing error'')
      then Syntax
      else if
         js_includes lower (str ''type error'') \<or>
         js_includes lower (str ''does not exist on type'') \<or>
         js_includes lower (str ''is not assignable'') \<or>
         js_includes lower (str ''ts('') \<or>
         js_includes lower (str ''cannot find name'')
      then Type
      else if
         js_includes lower (str ''module not found'') \<or>
         js_includes lower (str ''cannot find module'') \<or>
         js_includes lower (str ''yarn add'') \<or>
         js_includes lower (str ''pnpm add'') \<or>
         js_includes lower (str ''peer dep'') \<or>
         js_includes lower (str ''version mismatch'')
      then Dependency
      else if
         js_includes lower (str ''build'') \<or>
         js_includes lower (str ''compile'') \<or>
         js_includes lower (str ''webpack'') \<or>
         js_includes lower (str ''next build'') \<or>
         js_includes lower (str ''tsc'')
      then Build
      else if
         js_includes lower (str ''architecture'') \<or>
         js_includes lower (str ''refactor'') \<or>
         js_includes lower (str ''circular'') \<or>
         js_includes lower (str ''design'')
      then Complex
      else Unknown)"

fun getStartStage :: "ErrorCategory \<Rightarrow> nat" where
  "getStartStage Syntax = 0"
| "getStartStage Type = 1"
| "getStartStage Build = 2"
| "getStartStage Dependency = 3"
| "getStartStage Complex = 4"
| "getStartStage Unknown = 2"

text \<open>
  The classifier as the specification words it: a table of keyword lists in the priority
  order syntax, type, dependency, build, complex; the first category one of whose
  keywords occurs in the lower-cased text wins, and \<open>unknown\<close> is the answer when none
  does.
\<close>

definition keywordTable :: "(ErrorCategory \<times> jsstring list) list" where
  "keywordTable =
    [(Syntax, [str ''unexpected token'', str ''unterminated'', str ''missing >'', str ''jsx'',
               str ''parsing error'']),
     (Type, [str ''type error'', str ''does not exist on type'', str ''is not assignable'',
             str ''ts('', str ''cannot find name'']),
     (Dependency, [str ''module not found'', str ''cannot find module'', str ''yarn add'',
                   str ''pnpm add'', str ''peer dep'', str ''version mismatch'']),
     (Build, [str ''build'', str ''compile'', str ''webpack'', str ''next build'', str ''tsc'']),
     (Complex, [str ''architecture'', str ''refactor'', str ''circular'', str ''design''])]"

definition matchesAny :: "jsstring \<Rightarrow> jsstring list \<Rightarrow> bool" where
  "matchesAny text kws = list_ex (js_includes (toLowerCase text)) kws"

fun firstMatch :: "jsstring \<Rightarrow> (ErrorCategory \<times> jsstring list) list \<Rightarrow> ErrorCategory" where
  "firstMatch text [] = Unknown"
| "firstMatch text ((c, kws) # rest) = (if matchesAny text kws then c else firstMatch text rest)"

definition classify_spec :: "jsstring \<Rightarrow> ErrorCategory" where
  "classify_spec text = firstMatch text keywordTable"

section \<open>Pipeline execution\<close>

text \<open>
  The pipeline holds a response as \<open>unknown\<close>, so a response need not be a JSON value.
  What the pipeline does with a response is to evaluate, at two places, the expression
  that extracts its text. On a JSON value the expression gives \<open>responseText\<close>. On any
  other value it gives a string, or gives \<open>undefined\<close> (\<open>JSON.stringify\<close> of \<open>undefined\<close>, of
  a function or of a symbol), or throws (\<open>JSON.stringify\<close> of a cyclic object or of a
  \<open>BigInt\<close>, \<open>String\<close> of an object without a string form); such a value is represented
  by which of the three it is.
\<close>

datatype extraction = Text jsstring | Undefined | Throws

datatype rvalue = Json jsval | NonJson extraction

definition extractText :: "rvalue \<Rightarrow> extraction" where
  "extractText r = (case r of Json v \<Rightarrow> Text (responseText v) | NonJson x \<Rightarrow> x)"

text \<open>
  The only exception that the pipeline itself can raise is a \<open>TypeError\<close> of the runtime;
  it rejects the promise that \<open>runPipeline\<close> returns.
\<close>

datatype error = TypeError

record StageResult =
  stage :: jsstring
  model :: jsstring
  role :: jsstring
  chemistry :: jsstring
  response :: rvalue
  durationMs :: int

record DiagnoseResult =
  problem :: jsstring
  category :: ErrorCategory
  stagesRun :: "StageResult list"
  totalDurationMs :: int

subsection \<open>Prompt construction\<close>

text \<open>
  \<open>stage.tasks.map((t, i) => `  ${i + 1}. ${t}`).join("\n")\<close>; and \<open>stage.tasks[0]\<close> inside
  a template, which prints \<open>undefined\<close> for an empty task list.
\<close>

definition taskLines :: "jsstring list \<Rightarrow> jsstring" where
  "taskLines ts =
     join (str ''\<newline>'')
       (map (\<lambda>(i, t). str ''  '' @ decimal (i + 1) @ str ''. '' @ t) (enumerate 0 ts))"

definition firstTask :: "jsstring list \<Rightarrow> jsstring" where
  "firstTask ts = (case ts of [] \<Rightarrow> str ''undefined'' | t # _ \<Rightarrow> t)"

text \<open>
  The \<open>for\<close> loop over \<open>previousResults\<close>. Extracting the text of an earlier response can
  throw, and \<open>text.slice\<close> throws when the extraction gave \<open>undefined\<close>.
\<close>

fun previousLines :: "jsstring \<Rightarrow> StageResult list \<Rightarrow> error + jsstring" where
  "previousLines prompt [] = Inr prompt"
| "previousLines prompt (prev # rest) =
     (case extractText (response prev) of
        Throws \<Rightarrow> Inl TypeError
      | Undefined \<Rightarrow> Inl TypeError
      | Text text \<Rightarrow>
          previousLines
            (prompt @ str ''- '' @ role prev @ str '' ('' @ model prev @ str ''): '' @
             slice0 text 500 @ str ''\<newline>'')
            rest)"

definition buildStagePrompt ::
  "PipelineStage \<Rightarrow> jsstring \<Rightarrow> StageResult list \<Rightarrow> error + jsstring" where
  "buildStagePrompt = (\<lambda>stage context previousResults.
     let taskList = taskLines (tasks stage);
         prompt =
           str ''You are the '' @ PipelineStage.role stage @
           str '' in the Phil Jackson Triangle Pipeline.\<newline>Your job: '' @
           firstTask (tasks stage) @
           str ''\<newline>\<newline>PROBLEM:\<newline>'' @ context @
           str ''\<newline>\<newline>YOUR TASKS:\<newline>'' @ taskList @
           str ''\<newline>\<newline>'';
         extended =
           (if length previousResults > 0 then
              (case previousLines (prompt @ str ''PREVIOUS ANALYSIS FROM THE TEAM:\<newline>'')
                      previousResults of
                 Inl e \<Rightarrow> Inl e
               | Inr lines \<Rightarrow>
                   Inr (lines @
                     str ''\<newline>Build on their analysis. Don't repeat what they already found.\<newline>''))
            else Inr prompt)
     in case extended of
          Inl e \<Rightarrow> Inl e
        | Inr prompt \<Rightarrow>
            Inr (prompt @
              str ''\<newline>Be concise and actionable. Give specific file paths, line numbers, and code fixes where possible. No fluff.''))"

subsection \<open>The model-invocation service and the clock\<close>

text \<open>
  Modelled from the spec: \<open>WarRoomClient\<close> is declared in \<open>warroom.ts\<close>, which is not among
  the sources. The pipeline uses one member, \<open>ollamaGenerate(model, prompt)\<close>, an external
  call that resolves to a response or fails. It is a transition of the outside world
  \<open>'w\<close>: \<open>Inr\<close> carries the response, \<open>Inl\<close> what was thrown. The pipeline puts the thrown
  value into a template string; that gives a string for an \<open>Error\<close> and for most values,
  and throws a \<open>TypeError\<close> for a symbol or an object without a string form. \<open>Date.now()\<close>
  reads the clock of the same world, in milliseconds. A call that never settles is
  outside this model.
\<close>

datatype thrown = Printable jsstring | Unprintable

record 'w WarRoomClient =
  ollamaGenerate :: "jsstring \<Rightarrow> jsstring \<Rightarrow> 'w \<Rightarrow> (thrown + rvalue) \<times> 'w"

type_synonym 'w clock = "'w \<Rightarrow> int \<times> 'w"

subsection \<open>The loop of \<open>runPipeline\<close>\<close>

text \<open>
  The variables of the loop are the counter \<open>i\<close>, the rolling \<open>context\<close> and the list
  \<open>stagesRun\<close>; the world is threaded along. \<open>loopBody\<close> is one pass through the body of
  the \<open>for\<close> statement, the increment included: \<open>Inr\<close> the next state, or \<open>Inl\<close> the exception
  that leaves the function, with the world at that moment. An exception can come from
  building the prompt, from the template in the \<open>catch\<close> block, which is under no \<open>try\<close>,
  and from extracting the text of the response. \<open>pipelineLoop\<close> repeats the body while
  \<open>i < maxStages && i < PIPELINE_STAGES.length\<close>.
\<close>

type_synonym 'w loopState = "nat \<times> jsstring \<times> StageResult list \<times> 'w"

definition loopBody ::
  "'w clock \<Rightarrow> 'w WarRoomClient \<Rightarrow> nat \<Rightarrow> 'w loopState \<Rightarrow> (error \<times> 'w) + 'w loopState" where
  "loopBody Date_now client startIdx = (\<lambda>(i, context, stagesRun, w).
     let stageIdx = (startIdx + i) mod length PIPELINE_STAGES;
         stage = PIPELINE_STAGES ! stageIdx
     in case buildStagePrompt stage context stagesRun of
          Inl e \<Rightarrow> Inl (e, w)
        | Inr prompt \<Rightarrow>
            (case Date_now w of (stageStart, w) \<Rightarrow>
            (case ollamaGenerate client (PipelineStage.model stage) prompt w of (settled, w) \<Rightarrow>
            (case (case settled of
                     Inr v \<Rightarrow> Inr v
                   | Inl err \<Rightarrow>
                       (case err of
                          Unprintable \<Rightarrow> Inl TypeError
                        | Printable description \<Rightarrow>
                            Inr (Json (JObject [(str ''error'',
                              JString (str ''Model '' @ PipelineStage.model stage @
                                       str '' unavailable: '' @ description))])))) of
               Inl e \<Rightarrow> Inl (e, w)
             | Inr settledResponse \<Rightarrow>
                 (case Date_now w of (stageEnd, w) \<Rightarrow>
                   (let response = settledResponse;
                        durationMs = stageEnd - stageStart;
                        result = \<lparr>stage = name stage,
                                  model = PipelineStage.model stage,
                                  role = PipelineStage.role stage,
                                  chemistry = PipelineStage.chemistry stage,
                                  response = response,
                                  durationMs = durationMs\<rparr>;
                        stagesRun = stagesRun @ [result];
                        block = str ''\<newline>\<newline>--- '' @ PipelineStage.role stage @ str '' ('' @
                                PipelineStage.model stage @ str '') ---\<newline>''
                    in case extractText response of
                         Throws \<Rightarrow> Inl (TypeError, w)
                       | Undefined \<Rightarrow>
                           Inr (Suc i, context @ block @ str ''undefined'', stagesRun, w)
                       | Text extracted \<Rightarrow>
                           (let responseText = extracted
                            in Inr (Suc i, context @ block @ responseText, stagesRun, w))))))))"

function pipelineLoop ::
  "'w clock \<Rightarrow> 'w WarRoomClient \<Rightarrow> nat \<Rightarrow> int \<Rightarrow> 'w loopState \<Rightarrow> (error \<times> 'w) + 'w loopState" where
  "pipelineLoop Date_now client startIdx maxStages s =
     (if int (fst s) < maxStages \<and> fst s < length PIPELINE_STAGES
      then (case loopBody Date_now client startIdx s of
              Inl e \<Rightarrow> Inl e
            | Inr s' \<Rightarrow> pipelineLoop Date_now client startIdx maxStages s')
      else Inr s)"
  by pat_completeness auto
termination
  by (relation "measure (\<lambda>(Date_now, client, startIdx, maxStages, s). length PIPELINE_STAGES - fst s)")
     (auto simp: loopBody_def Let_def split: prod.splits sum.splits thrown.splits extraction.splits)

text \<open>
  \<open>maxStages\<close> is a number in the source and an integer in the interface the
  specification gives; it is an integer here, of either sign. \<open>Inl\<close> is the rejection of
  the promise.
\<close>

definition runPipeline ::
  "'w clock \<Rightarrow> 'w WarRoomClient \<Rightarrow> jsstring \<Rightarrow> int \<Rightarrow> 'w \<Rightarrow> (error + DiagnoseResult) \<times> 'w" where
  "runPipeline Date_now client = (\<lambda>problem maxStages w.
     let category = classifyError problem;
         startIdx = getStartStage category
     in case Date_now w of (totalStart, w) \<Rightarrow>
        (case pipelineLoop Date_now client startIdx maxStages (0, problem, [], w) of
           Inl (e, w) \<Rightarrow> (Inl e, w)
         | Inr s \<Rightarrow>
             (let (i, context, stagesRun, w) = s
              in case Date_now w of (totalEnd, w) \<Rightarrow>
                (Inr \<lparr>problem = problem,
                      category = category,
                      stagesRun = stagesRun,
                      totalDurationMs = totalEnd - totalStart\<rparr>, w))))"

text \<open>The call without a third argument takes the default \<open>maxStages = 7\<close>.\<close>

definition runPipeline_default ::
  "'w clock \<Rightarrow> 'w WarRoomClient \<Rightarrow> jsstring \<Rightarrow> 'w \<Rightarrow> (error + DiagnoseResult) \<times> 'w" where
  "runPipeline_default Date_now client p w = runPipeline Date_now client p 7 w"

definition quickDiagnose ::
  "'w clock \<Rightarrow> 'w WarRoomClient \<Rightarrow> jsstring \<Rightarrow> 'w \<Rightarrow> (error + DiagnoseResult) \<times> 'w" where
  "quickDiagnose Date_now client p w = runPipeline Date_now client p 1 w"

definition deepDiagnose ::
  "'w clock \<Rightarrow> 'w WarRoomClient \<Rightarrow> jsstring \<Rightarrow> 'w \<Rightarrow> (error + DiagnoseResult) \<times> 'w" where
  "deepDiagnose Date_now client p w = runPipeline Date_now client p 7 w"

section \<open>The diagnose tool\<close>

text \<open>
  \<open>String.prototype.trim\<close> removes white space and line terminators from both ends.
\<close>

definition isWhiteSpace :: "16 word \<Rightarrow> bool" where
  "isWhiteSpace c =
     (c \<in> {0x09, 0x0A, 0x0B, 0x0C, 0x0D, 0x20, 0xA0, 0x1680, 0x2028, 0x2029, 0x202F, 0x205F,
            0x3000, 0xFEFF} \<or>
      (0x2000 \<le> c \<and> c \<le> 0x200A))"

definition trim :: "jsstring \<Rightarrow> jsstring" where
  "trim s = rev (dropWhile isWhiteSpace (rev (dropWhile isWhiteSpace s)))"

text \<open>
  \<open>execute\<close> of \<open>createDiagnoseTool\<close>. \<open>params\<close> is a record of unknown values, here a
  property list. \<open>Inl\<close> is the rejection that a rejected run passes on; otherwise the
  result is the payload handed to \<open>json\<close>: \<open>Inl\<close> the message of the \<open>{ error: ... }\<close>
  object, \<open>Inr\<close> the result of the pipeline.
\<close>

definition warroom_diagnose_execute ::
  "'w clock \<Rightarrow> 'w WarRoomClient \<Rightarrow> (jsstring \<times> jsval) list \<Rightarrow> 'w \<Rightarrow>
     (error + (jsstring + DiagnoseResult)) \<times> 'w" where
  "warroom_diagnose_execute Date_now wr params = (\<lambda>w.
     let problem =
           (case map_of params (str ''problem'') of Some (JString s) \<Rightarrow> trim s | _ \<Rightarrow> [])
     in if problem = [] then (Inr (Inl (str ''problem is required.'')), w)
        else
          let depth =
                (case map_of params (str ''depth'') of Some (JString d) \<Rightarrow> d | _ \<Rightarrow> str ''standard'');
              (settled, w) =
                (if depth = str ''quick'' then quickDiagnose Date_now wr problem w
                 else if depth = str ''deep'' then deepDiagnose Date_now wr problem w
                 else runPipeline Date_now wr problem 3 w)
          in (case settled of Inl e \<Rightarrow> Inl e | Inr result \<Rightarrow> Inr (Inr result), w))"

section \<open>Notions used to state the properties\<close>

text \<open>
  A client is textual when whatever it throws has a string form and whatever it resolves
  to has a response text. Every client that resolves to JSON values and throws \<open>Error\<close>
  objects is textual.
\<close>

definition hasText :: "rvalue \<Rightarrow> bool" where
  "hasText r = (case extractText r of Text s \<Rightarrow> True | Undefined \<Rightarrow> False | Throws \<Rightarrow> False)"

definition textual :: "'w WarRoomClient \<Rightarrow> bool" where
  "textual client =
     (\<forall>m prompt w.
        case fst (ollamaGenerate client m prompt w) of
          Inl t \<Rightarrow> t \<noteq> Unprintable
        | Inr r \<Rightarrow> hasText r)"

text \<open>
  One pass through the body as a step on states, staying put when the pass throws; and
  the state of the loop of \<open>runPipeline\<close> after \<open>k\<close> passes, which is the state in which
  stage position \<open>k\<close> starts: its context, its list of results and its world.
\<close>

definition loopStep :: "'w clock \<Rightarrow> 'w WarRoomClient \<Rightarrow> nat \<Rightarrow> 'w loopState \<Rightarrow> 'w loopState" where
  "loopStep Date_now client startIdx s =
     (case loopBody Date_now client startIdx s of Inl e \<Rightarrow> s | Inr s' \<Rightarrow> s')"

definition loopStateAt ::
  "'w clock \<Rightarrow> 'w WarRoomClient \<Rightarrow> jsstring \<Rightarrow> nat \<Rightarrow> 'w \<Rightarrow> 'w loopState" where
  "loopStateAt Date_now client p k w =
     (loopStep Date_now client (getStartStage (classifyError p)) ^^ k) (0, p, [], snd (Date_now w))"

definition contextAt :: "'w clock \<Rightarrow> 'w WarRoomClient \<Rightarrow> jsstring \<Rightarrow> nat \<Rightarrow> 'w \<Rightarrow> jsstring" where
  "contextAt Date_now client p k w = fst (snd (loopStateAt Date_now client p k w))"

definition resultsAt ::
  "'w clock \<Rightarrow> 'w WarRoomClient \<Rightarrow> jsstring \<Rightarrow> nat \<Rightarrow> 'w \<Rightarrow> StageResult list" where
  "resultsAt Date_now client p k w = fst (snd (snd (loopStateAt Date_now client p k w)))"

definition worldAt :: "'w clock \<Rightarrow> 'w WarRoomClient \<Rightarrow> jsstring \<Rightarrow> nat \<Rightarrow> 'w \<Rightarrow> 'w" where
  "worldAt Date_now client p k w = snd (snd (snd (loopStateAt Date_now client p k w)))"




text \<open>
  The text that a template prints for the extracted text of a response, and the block
  that a recorded stage adds to the rolling context.
\<close>

definition renderedText :: "rvalue \<Rightarrow> jsstring" where
  "renderedText r =
     (case extractText r of Text s \<Rightarrow> s | Undefined \<Rightarrow> str ''undefined'' | Throws \<Rightarrow> [])"

definition contextBlock :: "StageResult \<Rightarrow> jsstring" where
  "contextBlock r =
     str ''\<newline>\<newline>--- '' @ role r @ str '' ('' @ model r @ str '') ---\<newline>'' @
     renderedText (response r)"

text \<open>
  The parts of a prompt: the opening with the role label, the first task, the context and
  the numbered task list; the line that summarises an earlier stage result; the closing
  instruction.
\<close>

definition promptOpening :: "PipelineStage \<Rightarrow> jsstring \<Rightarrow> jsstring" where
  "promptOpening st ctx =
     str ''You are the '' @ PipelineStage.role st @
     str '' in the Phil Jackson Triangle Pipeline.\<newline>Your job: '' @
     firstTask (tasks st) @
     str ''\<newline>\<newline>PROBLEM:\<newline>'' @ ctx @
     str ''\<newline>\<newline>YOUR TASKS:\<newline>'' @ taskLines (tasks st) @
     str ''\<newline>\<newline>''"

definition previousLine :: "StageResult \<Rightarrow> jsstring" where
  "previousLine prev =
     str ''- '' @ role prev @ str '' ('' @ model prev @ str ''): '' @
     slice0 (renderedText (response prev)) 500 @ str ''\<newline>''"

definition promptClosing :: jsstring where
  "promptClosing =
     str ''\<newline>Be concise and actionable. Give specific file paths, line numbers, and code fixes where possible. No fluff.''"

text \<open>The text of the prompt that is built when every earlier response has a text.\<close>

definition promptText :: "PipelineStage \<Rightarrow> jsstring \<Rightarrow> StageResult list \<Rightarrow> jsstring" where
  "promptText st ctx prior =
     promptOpening st ctx @
     (if prior = [] then []
      else str ''PREVIOUS ANALYSIS FROM THE TEAM:\<newline>'' @ concat (map previousLine prior) @
           str ''\<newline>Build on their analysis. Don't repeat what they already found.\<newline>'') @
     promptClosing"

text \<open>The error marker that the \<open>catch\<close> block makes of a failure with a string form.\<close>

definition errorMarker :: "PipelineStage \<Rightarrow> jsstring \<Rightarrow> rvalue" where
  "errorMarker st description =
     Json (JObject [(str ''error'',
       JString (str ''Model '' @ PipelineStage.model st @ str '' unavailable: '' @ description))])"

text \<open>
  A client and a clock that behave as the given ones and keep, beside the world, the list
  of the \<open>(model, prompt)\<close> pairs that \<open>ollamaGenerate\<close> was called with.
\<close>

definition recordingClient ::
  "'w WarRoomClient \<Rightarrow> ('w \<times> (jsstring \<times> jsstring) list) WarRoomClient" where
  "recordingClient client =
     \<lparr>ollamaGenerate = (\<lambda>m prompt (w, calls).
        case ollamaGenerate client m prompt w of (settled, w') \<Rightarrow>
          (settled, (w', calls @ [(m, prompt)])))\<rparr>"

definition recordingClock :: "'w clock \<Rightarrow> ('w \<times> (jsstring \<times> jsstring) list) clock" where
  "recordingClock Date_now = (\<lambda>(w, calls). case Date_now w of (t, w') \<Rightarrow> (t, (w', calls)))"

text \<open>A result with its timing fields set to zero.\<close>

definition untimed :: "DiagnoseResult \<Rightarrow> DiagnoseResult" where
  "untimed d =
     d\<lparr>stagesRun := map (\<lambda>r. r\<lparr>durationMs := 0\<rparr>) (stagesRun d), totalDurationMs := 0\<rparr>"

text \<open>
  Two loop states that agree in the counter, the context and the results, the timing
  field of the results apart.
\<close>

definition sameButTiming :: "'w loopState \<Rightarrow> 'v loopState \<Rightarrow> bool" where
  "sameButTiming s1 s2 =
     (fst s1 = fst s2 \<and> fst (snd s1) = fst (snd s2) \<and>
      map (\<lambda>r. r\<lparr>durationMs := 0\<rparr>) (fst (snd (snd s1))) =
      map (\<lambda>r. r\<lparr>durationMs := 0\<rparr>) (fst (snd (snd s2))))"

text \<open>
  A world for examples: the world is the number of clock readings so far, and the clock
  advances one millisecond per reading. One client fails on every call with an \<open>Error\<close>,
  one answers every call with an object whose \<open>response\<close> property is a fixed text, one
  throws a symbol on every call, and one resolves every call to \<open>undefined\<close>.
\<close>

definition tickingClock :: "nat clock" where
  "tickingClock w = (int w, Suc w)"


definition answeringClient :: "nat WarRoomClient" where
  "answeringClient =
     \<lparr>ollamaGenerate =
        (\<lambda>m prompt w. (Inr (Json (JObject [(str ''response'', JString (str ''ok''))])), w))\<rparr>"

definition symbolThrowingClient :: "nat WarRoomClient" where
  "symbolThrowingClient = \<lparr>ollamaGenerate = (\<lambda>m prompt w. (Inl Unprintable, w))\<rparr>"

definition undefinedClient :: "nat WarRoomClient" where
  "undefinedClient = \<lparr>ollamaGenerate = (\<lambda>m prompt w. (Inr (NonJson Undefined), w))\<rparr>"

section \<open>Facts about the strings, the registry and the classifier\<close>


lemma length_PIPELINE_STAGES: "length PIPELINE_STAGES = 7"
  by (simp add: PIPELINE_STAGES_def)

lemma js_includes_sublist: "js_includes s k \<longleftrightarrow> sublist k s"
  by (induction s) (auto simp: sublist_Cons_right)

lemma matchesAny_sublist: "matchesAny p kws \<longleftrightarrow> (\<exists>k\<in>set kws. sublist k (toLowerCase p))"
  by (simp add: matchesAny_def list_ex_iff js_includes_sublist)

lemma classifyError_refines: "classifyError p = classify_spec p"
  by (simp add: classifyError_def classify_spec_def keywordTable_def matchesAny_def Let_def)

lemma classifyError_lower: "toLowerCase p = toLowerCase q \<Longrightarrow> classifyError p = classifyError q"
  by (simp add: classifyError_def)

lemma classifyError_empty: "classifyError [] = Unknown"
  by (simp add: classifyError_def toLowerCase_def str_def)

lemma firstMatch_first:
  "j < length tbl \<Longrightarrow> matchesAny p (snd (tbl ! j)) \<Longrightarrow>
   (\<And>j'. j' < j \<Longrightarrow> \<not> matchesAny p (snd (tbl ! j'))) \<Longrightarrow>
   firstMatch p tbl = fst (tbl ! j)"
proof (induction tbl arbitrary: j)
  case Nil
  then show ?case by simp
next
  case (Cons e tbl)
  obtain c kws where e: "e = (c, kws)" by (cases e)
  show ?case
  proof (cases j)
    case 0
    with Cons.prems e show ?thesis by simp
  next
    case (Suc m)
    have "\<not> matchesAny p kws"
      using Cons.prems(3)[of 0] Suc e by simp
    moreover have "firstMatch p tbl = fst (tbl ! m)"
    proof (rule Cons.IH)
      show "m < length tbl" using Cons.prems(1) Suc by simp
      show "matchesAny p (snd (tbl ! m))" using Cons.prems(2) Suc by simp
      show "\<not> matchesAny p (snd (tbl ! j'))" if "j' < m" for j'
        using Cons.prems(3)[of "Suc j'"] that Suc by simp
    qed
    ultimately show ?thesis using e Suc by simp
  qed
qed

lemma firstMatch_none:
  "(\<And>e. e \<in> set tbl \<Longrightarrow> \<not> matchesAny p (snd e)) \<Longrightarrow> firstMatch p tbl = Unknown"
proof (induction tbl)
  case Nil
  show ?case by simp
next
  case (Cons e tbl)
  obtain c kws where e: "e = (c, kws)" by (cases e)
  have "\<not> matchesAny p kws" using Cons.prems[of e] e by simp
  moreover have "firstMatch p tbl = Unknown" using Cons by simp
  ultimately show ?case using e by simp
qed

lemma classifyError_no_keyword:
  assumes "\<forall>k\<in>set (concat (map snd keywordTable)). \<not> sublist k (toLowerCase p)"
  shows "classifyError p = Unknown"
proof -
  have "\<not> matchesAny p (snd e)" if "e \<in> set keywordTable" for e
    using assms that by (auto simp: matchesAny_sublist)
  then show ?thesis
    by (simp add: classifyError_refines classify_spec_def firstMatch_none)
qed

lemma no_keyword_hello:
  "\<forall>k\<in>set (concat (map snd keywordTable)). \<not> sublist k (toLowerCase (str ''Hello world''))"
  by (simp add: keywordTable_def js_includes_sublist[symmetric] toLowerCase_def toLowerUnit_def str_def)


text \<open>The two end-to-end scenarios of the specification.\<close>

lemma scenario_syntax: "classifyError (str ''Unexpected token '>' in JSX'') = Syntax"
  by (simp add: classifyError_def toLowerCase_def toLowerUnit_def str_def)

lemma scenario_dependency:
  "classifyError (str ''Module not found: cannot find module 'foo'' @ [0x27]) = Dependency"
  by (simp add: classifyError_def toLowerCase_def toLowerUnit_def str_def)

section \<open>The classifier\<close>

text \<open>
  Claim C3. \<open>classifyError\<close> is a function of the text alone. It is the table-driven
  classifier of the specification: the keyword lists are tried in the order syntax, type,
  dependency, build, complex; a list matches when one of its keywords occurs as a
  substring of the lower-cased text; the first list that matches gives the category,
  whatever the later lists do; a text in which no keyword occurs, the empty text among
  them, is \<open>unknown\<close>. Letter case does not count: two texts with the same lower-case form
  get the same category.
\<close>

theorem classifyError_first_match:
  "classifyError p = classify_spec p \<and>
   map fst keywordTable = [Syntax, Type, Dependency, Build, Complex] \<and>
   (matchesAny p kws \<longleftrightarrow> (\<exists>k\<in>set kws. sublist k (toLowerCase p))) \<and>
   (j < length keywordTable \<and> matchesAny p (snd (keywordTable ! j)) \<and>
      (\<forall>j'<j. \<not> matchesAny p (snd (keywordTable ! j'))) \<longrightarrow>
      classifyError p = fst (keywordTable ! j)) \<and>
   ((\<forall>k\<in>set (concat (map snd keywordTable)). \<not> sublist k (toLowerCase p)) \<longrightarrow>
      classifyError p = Unknown) \<and>
   classifyError [] = Unknown \<and>
   (toLowerCase p = toLowerCase q \<longrightarrow> classifyError p = classifyError q)"
proof (intro conjI impI)
  show "classifyError p = classify_spec p" by (rule classifyError_refines)
  show "map fst keywordTable = [Syntax, Type, Dependency, Build, Complex]"
    by (simp add: keywordTable_def)
  show "matchesAny p kws \<longleftrightarrow> (\<exists>k\<in>set kws. sublist k (toLowerCase p))"
    by (rule matchesAny_sublist)
  show "classifyError p = fst (keywordTable ! j)"
    if "j < length keywordTable \<and> matchesAny p (snd (keywordTable ! j)) \<and>
        (\<forall>j'<j. \<not> matchesAny p (snd (keywordTable ! j')))"
    using that by (simp add: classifyError_refines classify_spec_def firstMatch_first)
  show "classifyError p = Unknown"
    if "\<forall>k\<in>set (concat (map snd keywordTable)). \<not> sublist k (toLowerCase p)"
    using that by (rule classifyError_no_keyword)
  show "classifyError [] = Unknown" by (rule classifyError_empty)
  show "classifyError p = classifyError q" if "toLowerCase p = toLowerCase q"
    using that by (rule classifyError_lower)
qed

theorem classifyError_first_match_witness:
  "classifyError (str ''JSX'') = classify_spec (str ''JSX'') \<and>
   matchesAny (str ''a Type Error'') (snd (keywordTable ! 1)) \<and>
   \<not> matchesAny (str ''a Type Error'') (snd (keywordTable ! 0)) \<and>
   classifyError (str ''a Type Error'') = Type \<and>
   classifyError (str ''Hello world'') = Unknown \<and>
   toLowerCase (str ''Parsing ERROR'') = toLowerCase (str ''parsing error'') \<and>
   classifyError (str ''Parsing ERROR'') = classifyError (str ''parsing error'')"
proof -
  have a: "1 < length keywordTable \<and> matchesAny (str ''a Type Error'') (snd (keywordTable ! 1)) \<and>
      (\<forall>j'<1. \<not> matchesAny (str ''a Type Error'') (snd (keywordTable ! j')))"
    by (simp add: keywordTable_def matchesAny_def toLowerCase_def toLowerUnit_def str_def)
  have b: "toLowerCase (str ''Parsing ERROR'') = toLowerCase (str ''parsing error'')"
    by (simp add: toLowerCase_def toLowerUnit_def str_def)
  have t: "fst (keywordTable ! 1) = Type" by (simp add: keywordTable_def)
  have c1: "classifyError (str ''JSX'') = classify_spec (str ''JSX'')"
    using classifyError_first_match[of "str ''JSX''" "[]" 0 "[]"] by blast
  have c2: "classifyError (str ''a Type Error'') = Type"
    using classifyError_first_match[of "str ''a Type Error''" "[]" 1 "[]"] a t by metis
  have c3: "classifyError (str ''Hello world'') = Unknown"
    using classifyError_first_match[of "str ''Hello world''" "[]" 0 "[]"] no_keyword_hello by blast
  have c4: "classifyError (str ''Parsing ERROR'') = classifyError (str ''parsing error'')"
    using classifyError_first_match[of "str ''Parsing ERROR''" "[]" 0 "str ''parsing error''"] b
    by blast
  have d: "\<not> matchesAny (str ''a Type Error'') (snd (keywordTable ! 0))"
    using a by simp
  show ?thesis using a b c1 c2 c3 c4 d by blast
qed


section \<open>The stage selector\<close>

text \<open>
  Claim C5. \<open>getStartStage\<close> is defined on each of the six categories by the table
  syntax 0, type 1, build 2, dependency 3, complex 4, unknown 2, and its value is always
  an index into the registry. The empty text, and every text in which no keyword occurs,
  is classified \<open>unknown\<close> and so starts at index 2.
\<close>

theorem getStartStage_table:
  "getStartStage Syntax = 0 \<and> getStartStage Type = 1 \<and> getStartStage Build = 2 \<and>
   getStartStage Dependency = 3 \<and> getStartStage Complex = 4 \<and> getStartStage Unknown = 2 \<and>
   getStartStage c < length PIPELINE_STAGES \<and>
   classifyError [] = Unknown \<and> getStartStage (classifyError []) = 2 \<and>
   ((\<forall>k\<in>set (concat (map snd keywordTable)). \<not> sublist k (toLowerCase p)) \<longrightarrow>
      classifyError p = Unknown \<and> getStartStage (classifyError p) = 2)"
proof -
  have "getStartStage c < length PIPELINE_STAGES"
    by (cases c) (simp_all add: length_PIPELINE_STAGES)
  moreover have "classifyError p = Unknown \<and> getStartStage (classifyError p) = 2"
    if "\<forall>k\<in>set (concat (map snd keywordTable)). \<not> sublist k (toLowerCase p)"
    using classifyError_no_keyword[OF that] by simp
  ultimately show ?thesis by (simp add: classifyError_empty)
qed

theorem getStartStage_table_witness:
  "getStartStage Complex < length PIPELINE_STAGES \<and>
   classifyError (str ''Hello world'') = Unknown \<and>
   getStartStage (classifyError (str ''Hello world'')) = 2"
  using getStartStage_table[of Complex "str ''Hello world''"] no_keyword_hello by blast

section \<open>Facts about the loop and the prompt\<close>

declare pipelineLoop.simps [simp del]

lemma hasText_rendered: "hasText r \<Longrightarrow> extractText r = Text (renderedText r)"
  by (simp add: hasText_def renderedText_def split: extraction.splits)

lemma hasText_Json: "hasText (Json v)"
  by (simp add: hasText_def extractText_def)

lemma hasText_errorMarker: "hasText (errorMarker st d)"
  by (simp add: errorMarker_def hasText_Json)

lemma previousLines_text:
  "\<forall>r\<in>set rs. hasText (response r) \<Longrightarrow>
   previousLines a rs = Inr (a @ concat (map previousLine rs))"
proof (induction rs arbitrary: a)
  case Nil
  show ?case by simp
next
  case (Cons r rs)
  then have "extractText (response r) = Text (renderedText (response r))"
    by (simp add: hasText_rendered)
  then show ?case using Cons by (simp add: previousLine_def)
qed

lemma buildStagePrompt_text:
  "\<forall>r\<in>set prior. hasText (response r) \<Longrightarrow>
   buildStagePrompt st ctx prior = Inr (promptText st ctx prior)"
  by (simp add: buildStagePrompt_def Let_def previousLines_text promptText_def
      promptOpening_def promptClosing_def)

lemma textual_Inl:
  "textual c \<Longrightarrow> fst (ollamaGenerate c m prompt w) = Inl t \<Longrightarrow> \<exists>d. t = Printable d"
  unfolding textual_def by (cases t) (force split: sum.splits)+

lemma textual_Inr:
  "textual c \<Longrightarrow> fst (ollamaGenerate c m prompt w) = Inr r \<Longrightarrow> hasText r"
  unfolding textual_def by (force split: sum.splits)

lemma loopBody_text:
  fixes Date_now :: "'w clock" and c :: "'w WarRoomClient" and s0 i :: nat
    and ctx :: jsstring and rs :: "StageResult list" and w :: 'w
  assumes t: "textual c" and inv: "\<forall>r\<in>set rs. hasText (response r)"
  defines "st \<equiv> PIPELINE_STAGES ! ((s0 + i) mod length PIPELINE_STAGES)"
  defines "settled \<equiv> fst (ollamaGenerate c (PipelineStage.model st) (promptText st ctx rs)
                            (snd (Date_now w)))"
  shows "\<exists>r w'. loopBody Date_now c s0 (i, ctx, rs, w) =
                   Inr (Suc i, ctx @ contextBlock r, rs @ [r], w')
     \<and> stage r = name st
     \<and> model r = PipelineStage.model st
     \<and> role r = PipelineStage.role st
     \<and> chemistry r = PipelineStage.chemistry st
     \<and> response r =
         (case settled of
            Inr v \<Rightarrow> v
          | Inl e \<Rightarrow> (case e of Printable d \<Rightarrow> errorMarker st d | Unprintable \<Rightarrow> NonJson Throws))
     \<and> hasText (response r)"
proof -
  have bp: "buildStagePrompt st ctx rs = Inr (promptText st ctx rs)"
    using inv by (rule buildStagePrompt_text)
  obtain t0 w1 where n1: "Date_now w = (t0, w1)" by (cases "Date_now w")
  obtain x w2 where g: "ollamaGenerate c (PipelineStage.model st) (promptText st ctx rs) w1 = (x, w2)"
    by (cases "ollamaGenerate c (PipelineStage.model st) (promptText st ctx rs) w1")
  obtain t1 w3 where n2: "Date_now w2 = (t1, w3)" by (cases "Date_now w2")
  have sx: "settled = x" using n1 g by (simp add: settled_def)
  show ?thesis
  proof (cases x)
    case (Inl e)
    then obtain d where d: "e = Printable d"
      using textual_Inl[OF t, of "PipelineStage.model st" "promptText st ctx rs" w1] g by auto
    have ht: "extractText (errorMarker st d) = Text (renderedText (errorMarker st d))"
      by (rule hasText_rendered[OF hasText_errorMarker])
    show ?thesis
      using bp n1 g n2 Inl d ht sx hasText_errorMarker[of st d]
      by (simp add: loopBody_def Let_def st_def[symmetric] contextBlock_def errorMarker_def)
  next
    case (Inr v)
    then have hv: "hasText v"
      using textual_Inr[OF t, of "PipelineStage.model st" "promptText st ctx rs" w1] g by auto
    then have ht: "extractText v = Text (renderedText v)" by (rule hasText_rendered)
    show ?thesis
      using bp n1 g n2 Inr ht sx hv
      by (simp add: loopBody_def Let_def st_def[symmetric] contextBlock_def)
  qed
qed

lemma loopBody_fst: "loopBody Date_now c s0 s = Inr s' \<Longrightarrow> fst s' = Suc (fst s)"
  by (cases s)
     (auto simp: loopBody_def Let_def split: prod.splits sum.splits thrown.splits extraction.splits)

lemma loopStateAt_0: "loopStateAt Date_now c p 0 w = (0, p, [], snd (Date_now w))"
  by (simp add: loopStateAt_def)

lemma loopStateAt_Suc:
  "loopStateAt Date_now c p (Suc k) w =
     loopStep Date_now c (getStartStage (classifyError p)) (loopStateAt Date_now c p k w)"
  by (simp add: loopStateAt_def)

lemma resultsAt_0: "resultsAt Date_now c p 0 w = []"
  by (simp add: resultsAt_def loopStateAt_0)


lemma loopStateAt_text:
  assumes t: "textual c"
  shows "fst (loopStateAt Date_now c p k w) = k \<and>
         (\<forall>r\<in>set (resultsAt Date_now c p k w). hasText (response r)) \<and>
         loopBody Date_now c (getStartStage (classifyError p)) (loopStateAt Date_now c p k w) =
           Inr (loopStateAt Date_now c p (Suc k) w)"
proof (induction k)
  case 0
  from loopBody_text[OF t, of "[]" Date_now "getStartStage (classifyError p)" 0 p "snd (Date_now w)"]
  show ?case by (auto simp: loopStateAt_0 resultsAt_0 loopStateAt_Suc loopStep_def)
next
  case (Suc k)
  let ?s0 = "getStartStage (classifyError p)"
  obtain i ctx rs wk where s: "loopStateAt Date_now c p k w = (i, ctx, rs, wk)"
    by (cases "loopStateAt Date_now c p k w") auto
  have i: "i = k" and inv: "\<forall>r\<in>set rs. hasText (response r)"
    using Suc s by (simp_all add: resultsAt_def)
  from loopBody_text[OF t inv, of Date_now ?s0 i ctx wk] obtain r w' where
    r: "loopBody Date_now c ?s0 (i, ctx, rs, wk) = Inr (Suc i, ctx @ contextBlock r, rs @ [r], w')"
      "hasText (response r)" by blast
  have s1: "loopStateAt Date_now c p (Suc k) w = (Suc i, ctx @ contextBlock r, rs @ [r], w')"
    using r(1) s by (simp add: loopStateAt_Suc loopStep_def)
  have inv1: "\<forall>x\<in>set (rs @ [r]). hasText (response x)" using inv r(2) by auto
  from loopBody_text[OF t inv1, of Date_now ?s0 "Suc i" "ctx @ contextBlock r" w']
  obtain r2 w2 where
    r2: "loopBody Date_now c ?s0 (Suc i, ctx @ contextBlock r, rs @ [r], w') =
           Inr (Suc (Suc i), (ctx @ contextBlock r) @ contextBlock r2, (rs @ [r]) @ [r2], w2)"
    by blast
  have "loopBody Date_now c ?s0 (loopStateAt Date_now c p (Suc k) w) =
          Inr (loopStateAt Date_now c p (Suc (Suc k)) w)"
    using r2 s1 by (simp add: loopStateAt_Suc[of _ _ _ "Suc k"] loopStep_def)
  then show ?case using s1 i inv1 by (simp add: resultsAt_def)
qed

lemma loopStateAt_parts:
  "textual c \<Longrightarrow> loopStateAt Date_now c p k w =
     (k, contextAt Date_now c p k w, resultsAt Date_now c p k w, worldAt Date_now c p k w)"
  using loopStateAt_text[of c Date_now p k w]
  by (cases "loopStateAt Date_now c p k w") (simp add: contextAt_def resultsAt_def worldAt_def)






lemma pipelineLoop_text:
  assumes t: "textual c"
  shows "j \<le> nat (min n (int (length PIPELINE_STAGES))) \<Longrightarrow>
     pipelineLoop Date_now c (getStartStage (classifyError p)) n (loopStateAt Date_now c p j w) =
       Inr (loopStateAt Date_now c p (nat (min n (int (length PIPELINE_STAGES)))) w)"
proof (induction "nat (min n (int (length PIPELINE_STAGES))) - j" arbitrary: j)
  case 0
  then have j: "j = nat (min n (int (length PIPELINE_STAGES)))" by simp
  have f: "fst (loopStateAt Date_now c p j w) = j"
    using loopStateAt_text[OF t, of Date_now p j w] by simp
  have "\<not> (int j < n \<and> j < length PIPELINE_STAGES)" using j by auto
  then show ?case
    by (subst pipelineLoop.simps) (auto simp: f j[symmetric])
next
  case (Suc d)
  then have lt: "j < nat (min n (int (length PIPELINE_STAGES)))" by simp
  have f: "fst (loopStateAt Date_now c p j w) = j"
    and b: "loopBody Date_now c (getStartStage (classifyError p)) (loopStateAt Date_now c p j w) =
           Inr (loopStateAt Date_now c p (Suc j) w)"
    using loopStateAt_text[OF t, of Date_now p j w] by simp_all
  have c: "int j < n \<and> j < length PIPELINE_STAGES" using lt by auto
  have "pipelineLoop Date_now c (getStartStage (classifyError p)) n (loopStateAt Date_now c p j w) =
        pipelineLoop Date_now c (getStartStage (classifyError p)) n
          (loopStateAt Date_now c p (Suc j) w)"
    using c by (subst pipelineLoop.simps) (simp add: f b)
  also have "\<dots> = Inr (loopStateAt Date_now c p (nat (min n (int (length PIPELINE_STAGES)))) w)"
    using Suc.hyps(1)[of "Suc j"] Suc.hyps(2) lt by simp
  finally show ?case .
qed

lemma runPipeline_loopStateAt:
  assumes t: "textual c"
  shows "runPipeline Date_now c p n w =
    (let k = nat (min n (int (length PIPELINE_STAGES)));
         w' = worldAt Date_now c p k w
     in (Inr \<lparr>problem = p, category = classifyError p, stagesRun = resultsAt Date_now c p k w,
          totalDurationMs = fst (Date_now w') - fst (Date_now w)\<rparr>, snd (Date_now w')))"
proof -
  have "pipelineLoop Date_now c (getStartStage (classifyError p)) n (0, p, [], snd (Date_now w)) =
        Inr (loopStateAt Date_now c p (nat (min n (int (length PIPELINE_STAGES)))) w)"
    using pipelineLoop_text[OF t, of 0 n Date_now p w] by (simp add: loopStateAt_0)
  moreover obtain t0 w0 where n0: "Date_now w = (t0, w0)" by (cases "Date_now w")
  moreover obtain t1 w1 where
    "Date_now (worldAt Date_now c p (nat (min n (int (length PIPELINE_STAGES)))) w) = (t1, w1)"
    by (cases "Date_now (worldAt Date_now c p (nat (min n (int (length PIPELINE_STAGES)))) w)")
  ultimately show ?thesis
    by (simp add: runPipeline_def Let_def loopStateAt_parts[OF t])
qed

lemma length_PIPELINE_STAGES': "int (length PIPELINE_STAGES) = 7"
  by (simp add: length_PIPELINE_STAGES)

lemma runPipeline_returns:
  "textual c \<Longrightarrow> \<exists>d. fst (runPipeline Date_now c p n w) = Inr d"
  by (simp add: runPipeline_loopStateAt Let_def)













lemma textual_answeringClient: "textual answeringClient"
  by (simp add: textual_def answeringClient_def hasText_Json)







lemma classify_jsx: "classifyError (str ''jsx'') = Syntax"
  by (simp add: classifyError_def toLowerCase_def toLowerUnit_def str_def)


lemma pipelineLoop_stop:
  "n \<le> 0 \<Longrightarrow> pipelineLoop Date_now c s0 n (0, p, [], w) = Inr (0, p, [], w)"
  by (subst pipelineLoop.simps) simp



lemma buildStagePrompt_first:
  "buildStagePrompt st ctx [] = Inr (promptText st ctx [])"
  by (simp add: buildStagePrompt_text)






lemma undefined_response_aborts:
  "fst (runPipeline tickingClock undefinedClient [] 2 0) = Inl TypeError"
proof -
  let ?s0 = "getStartStage (classifyError [])"
  obtain r where b1: "loopBody tickingClock undefinedClient ?s0 (0, [], [], Suc 0) =
      Inr (Suc 0, [] @ str ''\<newline>\<newline>--- '' @
             PipelineStage.role (PIPELINE_STAGES ! ((?s0 + 0) mod length PIPELINE_STAGES)) @
             str '' ('' @
             PipelineStage.model (PIPELINE_STAGES ! ((?s0 + 0) mod length PIPELINE_STAGES)) @
             str '') ---\<newline>'' @ str ''undefined'', [r], Suc (Suc (Suc 0)))"
    and r: "response r = NonJson Undefined"
    by (simp add: loopBody_def Let_def buildStagePrompt_first undefinedClient_def tickingClock_def
        extractText_def)
  have b2: "loopBody tickingClock undefinedClient ?s0 (Suc 0, ctx, [r], w) = Inl (TypeError, w)"
    for ctx w
    by (simp add: loopBody_def Let_def buildStagePrompt_def r extractText_def)
  have "pipelineLoop tickingClock undefinedClient ?s0 2 (0, [], [], Suc 0) =
          Inl (TypeError, Suc (Suc (Suc 0)))"
    apply (subst pipelineLoop.simps)
    apply (simp add: b1 length_PIPELINE_STAGES)
    apply (subst pipelineLoop.simps)
    apply (simp add: b2 length_PIPELINE_STAGES)
    done
  then show ?thesis
    by (simp add: runPipeline_def Let_def tickingClock_def)
qed

lemma untimed_stage_eq:
  fixes a b :: StageResult
  shows "(a\<lparr>durationMs := 0\<rparr> = b\<lparr>durationMs := 0\<rparr>) \<longleftrightarrow>
     (stage a = stage b \<and> model a = model b \<and> role a = role b \<and>
      chemistry a = chemistry b \<and> response a = response b)"
  by (cases a; cases b) simp

lemma previousLines_untimed:
  "previousLines a (map (\<lambda>r. r\<lparr>durationMs := 0\<rparr>) rs) = previousLines a rs"
  by (induction rs arbitrary: a) (simp_all split: extraction.splits)

lemma buildStagePrompt_untimed:
  "buildStagePrompt st ctx (map (\<lambda>r. r\<lparr>durationMs := 0\<rparr>) rs) = buildStagePrompt st ctx rs"
  by (simp add: buildStagePrompt_def Let_def previousLines_untimed)

lemma buildStagePrompt_cong_untimed:
  assumes "map (\<lambda>r. r\<lparr>durationMs := 0\<rparr>) rs = map (\<lambda>r. r\<lparr>durationMs := 0\<rparr>) rs'"
  shows "buildStagePrompt st ctx rs = buildStagePrompt st ctx rs'"
  using buildStagePrompt_untimed[of st ctx rs] buildStagePrompt_untimed[of st ctx rs'] assms
  by simp

lemma loopBody_rel:
  assumes d1: "\<forall>m prompt w. fst (ollamaGenerate c1 m prompt w) = f m prompt"
      and d2: "\<forall>m prompt w. fst (ollamaGenerate c2 m prompt w) = f m prompt"
      and s: "sameButTiming s1 s2"
  shows "rel_sum (\<lambda>a b. fst a = fst b) sameButTiming
           (loopBody now1 c1 s0 s1) (loopBody now2 c2 s0 s2)"
proof -
  obtain i ctx rs1 w1 where s1: "s1 = (i, ctx, rs1, w1)" by (cases s1) auto
  obtain i' ctx' rs2 w2 where s2: "s2 = (i', ctx', rs2, w2)" by (cases s2) auto
  have e: "i' = i" "ctx' = ctx"
    and m: "map (\<lambda>r. r\<lparr>durationMs := 0\<rparr>) rs1 = map (\<lambda>r. r\<lparr>durationMs := 0\<rparr>) rs2"
    using s by (simp_all add: sameButTiming_def s1 s2)
  let ?st = "PIPELINE_STAGES ! ((s0 + i) mod length PIPELINE_STAGES)"
  have bp: "buildStagePrompt ?st ctx rs1 = buildStagePrompt ?st ctx rs2"
    using m by (rule buildStagePrompt_cong_untimed)
  show ?thesis
  proof (cases "buildStagePrompt ?st ctx rs2")
    case (Inl err)
    then show ?thesis using bp by (simp add: loopBody_def Let_def s1 s2 e)
  next
    case (Inr prompt)
    obtain t1 v1 where n1: "now1 w1 = (t1, v1)" by (cases "now1 w1")
    obtain t2 v2 where n2: "now2 w2 = (t2, v2)" by (cases "now2 w2")
    obtain x1 u1 where g1: "ollamaGenerate c1 (PipelineStage.model ?st) prompt v1 = (x1, u1)"
      by (cases "ollamaGenerate c1 (PipelineStage.model ?st) prompt v1")
    obtain x2 u2 where g2: "ollamaGenerate c2 (PipelineStage.model ?st) prompt v2 = (x2, u2)"
      by (cases "ollamaGenerate c2 (PipelineStage.model ?st) prompt v2")
    have x: "x1 = f (PipelineStage.model ?st) prompt" "x2 = f (PipelineStage.model ?st) prompt"
      using d1[rule_format, of "PipelineStage.model ?st" prompt v1]
            d2[rule_format, of "PipelineStage.model ?st" prompt v2] g1 g2 by simp_all
    obtain t1' v1' where n1': "now1 u1 = (t1', v1')" by (cases "now1 u1")
    obtain t2' v2' where n2': "now2 u2 = (t2', v2')" by (cases "now2 u2")
    show ?thesis
      using bp Inr n1 n2 g1 g2 x n1' n2' m
      by (simp add: loopBody_def Let_def s1 s2 e sameButTiming_def
          split: sum.splits thrown.splits extraction.splits)
  qed
qed

lemma pipelineLoop_rel:
  assumes d1: "\<forall>m prompt w. fst (ollamaGenerate c1 m prompt w) = f m prompt"
      and d2: "\<forall>m prompt w. fst (ollamaGenerate c2 m prompt w) = f m prompt"
  shows "sameButTiming s1 s2 \<Longrightarrow>
         rel_sum (\<lambda>a b. fst a = fst b) sameButTiming
           (pipelineLoop now1 c1 s0 n s1) (pipelineLoop now2 c2 s0 n s2)"
proof (induction "length PIPELINE_STAGES - fst s1" arbitrary: s1 s2 rule: less_induct)
  case less
  have i: "fst s2 = fst s1" using less.prems by (simp add: sameButTiming_def)
  have e1: "pipelineLoop now1 c1 s0 n s1 =
     (if int (fst s1) < n \<and> fst s1 < length PIPELINE_STAGES
      then (case loopBody now1 c1 s0 s1 of
              Inl e \<Rightarrow> Inl e
            | Inr s' \<Rightarrow> pipelineLoop now1 c1 s0 n s')
      else Inr s1)"
    by (rule pipelineLoop.simps)
  have e2: "pipelineLoop now2 c2 s0 n s2 =
     (if int (fst s2) < n \<and> fst s2 < length PIPELINE_STAGES
      then (case loopBody now2 c2 s0 s2 of
              Inl e \<Rightarrow> Inl e
            | Inr s' \<Rightarrow> pipelineLoop now2 c2 s0 n s')
      else Inr s2)"
    by (rule pipelineLoop.simps)
  show ?case
  proof (cases "int (fst s1) < n \<and> fst s1 < length PIPELINE_STAGES")
    case False
    then show ?thesis
      unfolding e1 e2 using less.prems i by auto
  next
    case True
    note b = loopBody_rel[OF d1 d2 less.prems, of now1 s0 now2]
    show ?thesis
    proof (cases "loopBody now1 c1 s0 s1")
      case (Inl a)
      then obtain b' where "loopBody now2 c2 s0 s2 = Inl b'" "fst a = fst b'"
        using b by (cases "loopBody now2 c2 s0 s2") auto
      then show ?thesis
        unfolding e1 e2 using True i Inl by simp
    next
      case (Inr s1')
      then obtain s2' where s2': "loopBody now2 c2 s0 s2 = Inr s2'" "sameButTiming s1' s2'"
        using b by (cases "loopBody now2 c2 s0 s2") auto
      have "fst s1' = Suc (fst s1)" using Inr by (rule loopBody_fst)
      then have "length PIPELINE_STAGES - fst s1' < length PIPELINE_STAGES - fst s1"
        using True by linarith
      from less.hyps[OF this s2'(2)]
      show ?thesis
        unfolding e1 e2 using True i Inr s2'(1) by simp
    qed
  qed
qed

lemma textual_deterministic:
  fixes c1 :: "'w WarRoomClient" and c2 :: "'v WarRoomClient"
  assumes d1: "\<forall>m prompt w. fst (ollamaGenerate c1 m prompt w) = f m prompt"
      and d2: "\<forall>m prompt w. fst (ollamaGenerate c2 m prompt w) = f m prompt"
      and t: "textual c1"
  shows "textual c2"
  unfolding textual_def
proof (intro allI)
  fix m prompt and w :: 'v
  have "fst (ollamaGenerate c2 m prompt w) = fst (ollamaGenerate c1 m prompt undefined)"
    using d1 d2 by simp
  then show "case fst (ollamaGenerate c2 m prompt w) of
               Inl t \<Rightarrow> t \<noteq> Unprintable | Inr r \<Rightarrow> hasText r"
    using t[unfolded textual_def, rule_format, of m prompt undefined] by simp
qed



lemma trim_example: "trim (str '' jsx '') = str ''jsx''"
  by (simp add: trim_def isWhiteSpace_def str_def)








lemma final_review_stage:
  "PipelineStage.role (PIPELINE_STAGES ! 5) = str ''Team Captain''"
  "tasks (PIPELINE_STAGES ! 5) =
     [str ''Review all fixes for consistency'', str ''Ensure build success'',
      str ''Make the final call'']"
  by (simp_all add: PIPELINE_STAGES_def)

lemma prompt_example:
  "buildStagePrompt (PIPELINE_STAGES ! 5) (str ''jsx'')
     [\<lparr>stage = str ''syntax_correction'', model = str ''falcon:7b'',
       role = str ''Syntax Specialist'', chemistry = [],
       response = Json (JObject [(str ''response'', JString (str ''ok''))]), durationMs = 1\<rparr>] =
   Inr (str ''You are the Team Captain in the Phil Jackson Triangle Pipeline.\<newline>Your job: Review all fixes for consistency\<newline>\<newline>PROBLEM:\<newline>jsx\<newline>\<newline>YOUR TASKS:\<newline>  1. Review all fixes for consistency\<newline>  2. Ensure build success\<newline>  3. Make the final call\<newline>\<newline>PREVIOUS ANALYSIS FROM THE TEAM:\<newline>- Syntax Specialist (falcon:7b): ok\<newline>\<newline>Build on their analysis. Don't repeat what they already found.\<newline>\<newline>Be concise and actionable. Give specific file paths, line numbers, and code fixes where possible. No fluff.'')"
  by (simp add: buildStagePrompt_def final_review_stage taskLines_def firstTask_def
      extractText_def responseText_def slice0_def enumerate_eq_zip upt_rec str_def Let_def)

lemma previousLines_no_text:
  "\<exists>r\<in>set rs. \<not> hasText (response r) \<Longrightarrow> previousLines a rs = Inl TypeError"
  by (induction rs arbitrary: a) (auto simp: hasText_def split: extraction.splits)

lemma buildStagePrompt_no_text:
  "\<exists>r\<in>set prior. \<not> hasText (response r) \<Longrightarrow> buildStagePrompt st ctx prior = Inl TypeError"
proof -
  assume a: "\<exists>r\<in>set prior. \<not> hasText (response r)"
  then have ne: "prior \<noteq> []" by auto
  have pl: "previousLines x prior = Inl TypeError" for x
    using a by (rule previousLines_no_text)
  show ?thesis using ne by (simp add: buildStagePrompt_def Let_def pl)
qed

section \<open>The prompt builder\<close>


section \<open>The executor\<close>





text \<open>
  Claim C10. With a budget \<open>n \<le> 0\<close> \<open>runPipeline\<close> returns all the same, for every client.
  The result has the problem, its category and no stage result, the clock is read twice
  and nothing else happens to the world; a client that records its calls has recorded
  none.
\<close>

theorem no_stage_without_budget:
  assumes "n \<le> 0"
  shows "runPipeline Date_now c p n w =
           (Inr \<lparr>problem = p, category = classifyError p, stagesRun = [],
                 totalDurationMs = fst (Date_now (snd (Date_now w))) - fst (Date_now w)\<rparr>,
            snd (Date_now (snd (Date_now w)))) \<and>
         snd (snd (runPipeline (recordingClock Date_now) (recordingClient c) p n (w, []))) = []"
proof -
  obtain t0 w0 where a: "Date_now w = (t0, w0)" by (cases "Date_now w")
  obtain t1 w1 where b: "Date_now w0 = (t1, w1)" by (cases "Date_now w0")
  have "runPipeline Date_now c p n w =
           (Inr \<lparr>problem = p, category = classifyError p, stagesRun = [],
                 totalDurationMs = fst (Date_now (snd (Date_now w))) - fst (Date_now w)\<rparr>,
            snd (Date_now (snd (Date_now w))))"
    using a b by (simp add: runPipeline_def Let_def pipelineLoop_stop[OF assms])
  moreover have "snd (snd (runPipeline (recordingClock Date_now) (recordingClient c) p n (w, []))) = []"
    using a b by (simp add: runPipeline_def Let_def pipelineLoop_stop[OF assms] recordingClock_def)
  ultimately show ?thesis by simp
qed

theorem no_stage_without_budget_witness:
  "runPipeline tickingClock symbolThrowingClient (str ''jsx'') (- 3) 0 =
     (Inr \<lparr>problem = str ''jsx'', category = Syntax, stagesRun = [], totalDurationMs = 1\<rparr>, 2) \<and>
   snd (snd (runPipeline (recordingClock tickingClock) (recordingClient symbolThrowingClient)
               (str ''jsx'') (- 3) (0, []))) = []"
proof -
  have "(- 3 :: int) \<le> 0" by simp
  from no_stage_without_budget[OF this, of tickingClock symbolThrowingClient "str ''jsx''" 0]
  show ?thesis by (simp add: classify_jsx tickingClock_def)
qed






text \<open>
  Claim C8. Let two runs of \<open>runPipeline\<close> get the same problem and budget, from clients
  whose answer to a call is one and the same function of the model and the prompt,
  whatever the state of the world; the clocks and the worlds may differ. Then both runs
  reject or both return, and two returned results are equal once the timing fields are
  put to zero: they have the same problem, the same category, and stage results that
  agree, position by position, in stage, model, role, chemistry and response. With a
  textual client both runs return.
\<close>

theorem deterministic_up_to_timing:
  assumes d1: "\<forall>m prompt w. fst (ollamaGenerate c1 m prompt w) = f m prompt"
      and d2: "\<forall>m prompt w. fst (ollamaGenerate c2 m prompt w) = f m prompt"
  shows "rel_sum (=)
           (\<lambda>a b. untimed a = untimed b \<and> problem a = problem b \<and> category a = category b \<and>
              list_all2 (\<lambda>x y. stage x = stage y \<and> model x = model y \<and> role x = role y \<and>
                            chemistry x = chemistry y \<and> response x = response y)
                (stagesRun a) (stagesRun b))
           (fst (runPipeline now1 c1 p n w1)) (fst (runPipeline now2 c2 p n w2)) \<and>
         (textual c1 \<longrightarrow>
            (\<exists>a b. fst (runPipeline now1 c1 p n w1) = Inr a \<and>
                   fst (runPipeline now2 c2 p n w2) = Inr b \<and> untimed a = untimed b))"
proof -
  let ?s0 = "getStartStage (classifyError p)"
  obtain t1 v1 where n1: "now1 w1 = (t1, v1)" by (cases "now1 w1")
  obtain t2 v2 where n2: "now2 w2 = (t2, v2)" by (cases "now2 w2")
  have init: "sameButTiming (0, p, [], v1) (0, p, [], v2)"
    by (simp add: sameButTiming_def)
  note rel = pipelineLoop_rel[OF d1 d2 init, of now1 ?s0 n now2]
  have main: "rel_sum (=)
           (\<lambda>a b. untimed a = untimed b \<and> problem a = problem b \<and> category a = category b \<and>
              list_all2 (\<lambda>x y. stage x = stage y \<and> model x = model y \<and> role x = role y \<and>
                            chemistry x = chemistry y \<and> response x = response y)
                (stagesRun a) (stagesRun b))
           (fst (runPipeline now1 c1 p n w1)) (fst (runPipeline now2 c2 p n w2))"
  proof (cases "pipelineLoop now1 c1 ?s0 n (0, p, [], v1)")
    case (Inl a)
    then obtain b where b: "pipelineLoop now2 c2 ?s0 n (0, p, [], v2) = Inl b" "fst a = fst b"
      using rel by (cases "pipelineLoop now2 c2 ?s0 n (0, p, [], v2)") auto
    show ?thesis
      using Inl b n1 n2 by (auto simp: runPipeline_def Let_def split: prod.splits)
  next
    case (Inr s1)
    then obtain s2 where s2: "pipelineLoop now2 c2 ?s0 n (0, p, [], v2) = Inr s2"
      "sameButTiming s1 s2"
      using rel by (cases "pipelineLoop now2 c2 ?s0 n (0, p, [], v2)") auto
    obtain i1 x1 rs1 u1 where s1: "s1 = (i1, x1, rs1, u1)" by (cases s1) auto
    obtain i2 x2 rs2 u2 where s2': "s2 = (i2, x2, rs2, u2)" by (cases s2) auto
    have m: "map (\<lambda>r. r\<lparr>durationMs := 0\<rparr>) rs1 = map (\<lambda>r. r\<lparr>durationMs := 0\<rparr>) rs2"
      using s2(2) by (simp add: sameButTiming_def s1 s2')
    then have "list_all2 (\<lambda>a b. a\<lparr>durationMs := 0\<rparr> = b\<lparr>durationMs := 0\<rparr>) rs1 rs2"
      by (simp add: list_all2_conv_all_nth list_eq_iff_nth_eq)
    then have l: "list_all2 (\<lambda>x y. stage x = stage y \<and> model x = model y \<and> role x = role y \<and>
                            chemistry x = chemistry y \<and> response x = response y) rs1 rs2"
      by (simp add: untimed_stage_eq)
    obtain e1 y1 where f1: "now1 u1 = (e1, y1)" by (cases "now1 u1")
    obtain e2 y2 where f2: "now2 u2 = (e2, y2)" by (cases "now2 u2")
    show ?thesis
      using Inr s2(1) n1 n2 s1 s2' f1 f2 m l
      by (simp add: runPipeline_def Let_def untimed_def)
  qed
  have "\<exists>a b. fst (runPipeline now1 c1 p n w1) = Inr a \<and>
                   fst (runPipeline now2 c2 p n w2) = Inr b \<and> untimed a = untimed b"
    if t: "textual c1"
  proof -
    obtain a where a: "fst (runPipeline now1 c1 p n w1) = Inr a"
      using runPipeline_returns[OF t] by blast
    obtain b where b: "fst (runPipeline now2 c2 p n w2) = Inr b"
      using runPipeline_returns[OF textual_deterministic[OF d1 d2 t]] by blast
    show ?thesis using main a b by simp
  qed
  with main show ?thesis by blast
qed

theorem deterministic_up_to_timing_witness:
  "\<exists>a b. fst (runPipeline tickingClock answeringClient (str ''jsx'') 2 0) = Inr a \<and>
         fst (runPipeline (recordingClock tickingClock) (recordingClient answeringClient)
                (str ''jsx'') 2 (5, [])) = Inr b \<and>
         untimed a = untimed b"
proof -
  have a: "\<forall>m prompt w. fst (ollamaGenerate answeringClient m prompt w) =
             Inr (Json (JObject [(str ''response'', JString (str ''ok''))]))"
    by (simp add: answeringClient_def)
  have b: "\<forall>m prompt w. fst (ollamaGenerate (recordingClient answeringClient) m prompt w) =
             Inr (Json (JObject [(str ''response'', JString (str ''ok''))]))"
    by (simp add: answeringClient_def recordingClient_def split: prod.splits)
  from deterministic_up_to_timing[OF a b] textual_answeringClient show ?thesis by blast
qed

section \<open>The entry points\<close>

text \<open>
  Claim C9. \<open>quickDiagnose\<close> is \<open>runPipeline\<close> with the budget 1 and \<open>deepDiagnose\<close> is
  \<open>runPipeline\<close> with the budget 7, for every client, clock, problem and world. The tool
  trims the problem it is given; when the trimmed problem is not empty, the depth
  \<open>quick\<close> runs the pipeline on it with the budget 1, \<open>deep\<close> with 7, and \<open>standard\<close>, which
  is also the default of a missing depth, with 3, and the tool hands on what the run
  gives.
\<close>

theorem diagnose_wrappers:
  "quickDiagnose Date_now c p w = runPipeline Date_now c p 1 w \<and>
   deepDiagnose Date_now c p w = runPipeline Date_now c p 7 w \<and>
   (map_of params (str ''problem'') = Some (JString s) \<and> trim s \<noteq> [] \<longrightarrow>
      (map_of params (str ''depth'') = Some (JString (str ''quick'')) \<longrightarrow>
         warroom_diagnose_execute Date_now c params w =
           map_prod (map_sum id Inr) id (runPipeline Date_now c (trim s) 1 w)) \<and>
      (map_of params (str ''depth'') = Some (JString (str ''deep'')) \<longrightarrow>
         warroom_diagnose_execute Date_now c params w =
           map_prod (map_sum id Inr) id (runPipeline Date_now c (trim s) 7 w)) \<and>
      (map_of params (str ''depth'') = Some (JString (str ''standard'')) \<or>
       map_of params (str ''depth'') = None \<longrightarrow>
         warroom_diagnose_execute Date_now c params w =
           map_prod (map_sum id Inr) id (runPipeline Date_now c (trim s) 3 w)))"
proof -
  have ne: "str ''standard'' \<noteq> str ''quick''" "str ''standard'' \<noteq> str ''deep''"
    "str ''deep'' \<noteq> str ''quick''"
    by (simp_all add: str_def)
  show ?thesis
    using ne
    by (auto simp: quickDiagnose_def deepDiagnose_def warroom_diagnose_execute_def Let_def
        split: prod.splits sum.splits)
qed

theorem diagnose_wrappers_witness:
  "quickDiagnose tickingClock answeringClient (str ''jsx'') 0 =
     runPipeline tickingClock answeringClient (str ''jsx'') 1 0 \<and>
   warroom_diagnose_execute tickingClock answeringClient
     [(str ''problem'', JString (str '' jsx ''))] 0 =
     map_prod (map_sum id Inr) id (runPipeline tickingClock answeringClient (str ''jsx'') 3 0)"
proof -
  have ne: "str ''jsx'' \<noteq> []" "str ''depth'' \<noteq> str ''problem''" by (simp_all add: str_def)
  have p: "map_of [(str ''problem'', JString (str '' jsx ''))] (str ''problem'') =
             Some (JString (str '' jsx ''))" by simp
  have d: "map_of [(str ''problem'', JString (str '' jsx ''))] (str ''depth'') = None"
    using ne by simp
  from diagnose_wrappers[of tickingClock answeringClient "str ''jsx''" 0
      "[(str ''problem'', JString (str '' jsx ''))]" "str '' jsx ''"]
  show ?thesis using p d ne by (simp add: trim_example)
qed

end
